theory Spec2Isabelle
  imports Main "HOL-Library.Char_ord" "HOL-Library.List_Lexorder" "HOL-Library.AList"
    "HOL-Library.Multiset"
begin

section \<open>Python values, strings and errors\<close>

text \<open>
  The model follows \<^verbatim>\<open>bilby_pipe/main.py\<close>. Python strings are modelled as
  \<^typ>\<open>string\<close> (ASCII); the order on strings is the lexicographic order on character
  codes, as Python's. A raised exception is the left summand of the result.
\<close>

datatype error =
    ValueError string
  | FileNotFoundError
  | NotADirectoryError
  | IsADirectoryError
  | PermissionError
  | SameFileError
  | SystemExit

text \<open>
  Dynamically typed values: what the keyword arguments of \<^verbatim>\<open>Dag\<close> and of
  \<^verbatim>\<open>pycondor.Job\<close> may hold.
\<close>

datatype pyval =
    PyNone
  | PyBool bool
  | PyInt int
  | PyStr string

text \<open>
  What \<^verbatim>\<open>args.include_detectors\<close> may hold: a string, a list of strings, or any
  other object (\<open>DetOther r\<close>, \<open>r\<close> being its \<^verbatim>\<open>str()\<close>).
\<close>

datatype detectors_arg =
    DetStr string
  | DetList "string list"
  | DetOther string

text \<open>\<^verbatim>\<open>str.upper()\<close> on ASCII: the letters a to z are moved to A to Z.\<close>

definition upper_char :: "char \<Rightarrow> char" where
  "upper_char c =
     (if CHR ''a'' \<le> c \<and> c \<le> CHR ''z'' then char_of (of_char c - (32::nat)) else c)"

definition upper :: "string \<Rightarrow> string" where
  "upper s = map upper_char s"



text \<open>
  \<^verbatim>\<open>string.split(' ')\<close>: cut at every single space; empty pieces are kept and the
  empty string gives one empty piece.
\<close>

fun split_string_by_space :: "string \<Rightarrow> string list" where
  "split_string_by_space [] = [[]]"
| "split_string_by_space (c # cs) =
     (if c = CHR '' '' then [] # split_string_by_space cs
      else (case split_string_by_space cs of
              [] \<Rightarrow> [[c]]
            | w # ws \<Rightarrow> (c # w) # ws))"

text \<open>\<^verbatim>\<open>sep.join(xs)\<close>.\<close>

fun join :: "string \<Rightarrow> string list \<Rightarrow> string" where
  "join sep [] = []"
| "join sep [x] = x"
| "join sep (x # y # ys) = x @ sep @ join sep (y # ys)"

text \<open>\<^verbatim>\<open>os.path.join(a, b)\<close> and \<^verbatim>\<open>os.path.basename(p)\<close> of \<^verbatim>\<open>posixpath\<close>.\<close>

definition os_path_join :: "string \<Rightarrow> string \<Rightarrow> string" where
  "os_path_join a b =
     (if b \<noteq> [] \<and> hd b = CHR ''/'' then b
      else if a = [] \<or> last a = CHR ''/'' then a @ b
      else a @ ''/'' @ b)"

definition basename :: "string \<Rightarrow> string" where
  "basename p = rev (takeWhile (\<lambda>c. c \<noteq> CHR ''/'') (rev p))"

section \<open>The environment of the process\<close>

text \<open>
  The file system maps a path to what is there; \<^verbatim>\<open>os.environ\<close> maps a variable to its
  value. \<open>denied\<close> holds of the paths that the process may not access (a directory it
  may not search, a file it may not read or write). \<open>abspath\<close> stands for \<^verbatim>\<open>os.path.abspath\<close> in the current working directory and
  \<open>package_dir\<close> for \<^verbatim>\<open>os.path.dirname(os.path.dirname(__file__))\<close>. \<open>warnings\<close> collects
  the messages of \<^verbatim>\<open>logger.warning\<close> (debug messages are not recorded).
\<close>

datatype node = File string | Dir

record world =
  environ :: "string \<rightharpoonup> string"
  fs :: "string \<rightharpoonup> node"
  denied :: "string \<Rightarrow> bool"
  abspath :: "string \<Rightarrow> string"
  package_dir :: string
  warnings :: "string list"

definition isfile :: "world \<Rightarrow> string \<Rightarrow> bool" where
  "isfile w p = (case fs w p of Some (File c) \<Rightarrow> True | _ \<Rightarrow> False)"

definition logger_warning :: "world \<Rightarrow> string \<Rightarrow> world" where
  "logger_warning w m = w\<lparr>warnings := warnings w @ [m]\<rparr>"

text \<open>
  The leading parts of a path, shortest first: what stands before each of its
  separators. The system walks them in this order and stops at the first that is a
  regular file (\<^verbatim>\<open>NotADirectoryError\<close>) or that may not be accessed
  (\<^verbatim>\<open>PermissionError\<close>). Directories need no entry of their own: a leading part
  without an entry is taken as a directory. Paths are compared as strings.
\<close>

definition ancestors :: "string \<Rightarrow> string list" where
  "ancestors p = map (\<lambda>i. take i p) (filter (\<lambda>i. p ! i = CHR ''/'') [0..<length p])"

fun walk :: "world \<Rightarrow> string list \<Rightarrow> error option" where
  "walk w [] = None"
| "walk w (q # qs) =
     (if isfile w q then Some NotADirectoryError
      else if denied w q then Some PermissionError
      else walk w qs)"

text \<open>Opening a file for reading and for writing, as \<^verbatim>\<open>open(p, 'rb')\<close> and \<^verbatim>\<open>open(p, 'wb')\<close>.\<close>

definition open_rb :: "world \<Rightarrow> string \<Rightarrow> error + string" where
  "open_rb w p =
     (case walk w (ancestors p) of
        Some e \<Rightarrow> Inl e
      | None \<Rightarrow>
          (case fs w p of
             None \<Rightarrow> Inl FileNotFoundError
           | Some n \<Rightarrow>
               (if denied w p then Inl PermissionError
                else (case n of Dir \<Rightarrow> Inl IsADirectoryError | File c \<Rightarrow> Inr c))))"

definition open_wb :: "world \<Rightarrow> string \<Rightarrow> string \<Rightarrow> error + world" where
  "open_wb w p c =
     (case walk w (ancestors p) of
        Some e \<Rightarrow> Inl e
      | None \<Rightarrow>
          (case fs w p of
             Some Dir \<Rightarrow> Inl IsADirectoryError
           | Some (File old) \<Rightarrow>
               (if denied w p then Inl PermissionError
                else Inr (w\<lparr>fs := (fs w)(p \<mapsto> File c)\<rparr>))
           | None \<Rightarrow> Inr (w\<lparr>fs := (fs w)(p \<mapsto> File c)\<rparr>)))"

text \<open>
  \<^verbatim>\<open>shutil.copyfile(src, dst)\<close>. Source and destination being the same existing file
  raises \<^verbatim>\<open>SameFileError\<close>. Then the source is opened for reading and, if that
  succeeds, the destination for writing, and the content is written; an error of
  either step is the error of the copy.
\<close>

definition copyfile :: "world \<Rightarrow> string \<Rightarrow> string \<Rightarrow> error + world" where
  "copyfile w src dst =
     (if src = dst \<and> walk w (ancestors src) = None \<and> fs w src \<noteq> None then Inl SameFileError
      else (case open_rb w src of
              Inl e \<Rightarrow> Inl e
            | Inr c \<Rightarrow> open_wb w dst c))"

text \<open>
  Modelled from the spec: \<^verbatim>\<open>utils.check_directory_exists_and_if_not_mkdir\<close> is not among
  the sources; the spec calls it an idempotent create-if-missing directory check.
\<close>

definition check_directory_exists_and_if_not_mkdir :: "world \<Rightarrow> string \<Rightarrow> world" where
  "check_directory_exists_and_if_not_mkdir w d =
     (case fs w d of None \<Rightarrow> w\<lparr>fs := (fs w)(d \<mapsto> Dir)\<rparr> | Some n \<Rightarrow> w)"

section \<open>Input\<close>

text \<open>
  The parsed command line (\<^verbatim>\<open>args\<close>, an \<^verbatim>\<open>argparse\<close> namespace) with the attributes
  that \<^verbatim>\<open>Input.__init__\<close> reads. \<^verbatim>\<open>args.sampler\<close> is taken as a list of sampler names.
\<close>

record args =
  arg_ini :: string
  arg_submit :: bool
  arg_outdir :: string
  arg_label :: string
  arg_queue :: int
  arg_create_summary :: bool
  arg_accounting :: string
  arg_sampler :: "string list"
  arg_include_detectors :: detectors_arg
  arg_coherence_test :: bool
  arg_executable :: string
  arg_X509 :: "string option"
  arg_exe_help :: bool

text \<open>
  The attributes of an \<^verbatim>\<open>Input\<close> object. \<open>x509userproxy_attr\<close> is the private attribute
  \<^verbatim>\<open>_x509userproxy\<close>: \<open>None\<close> when it was never assigned, \<open>Some None\<close> when it holds
  Python's \<^verbatim>\<open>None\<close>, \<open>Some (Some p)\<close> when it holds the path \<open>p\<close>.
\<close>

record Input =
  unknown_args :: "string list"
  ini :: string
  submit :: bool
  outdir :: string
  label :: string
  queue :: int
  create_summary :: bool
  accounting :: string
  sampler :: "string list"
  include_detectors :: "string list"
  coherence_test :: bool
  executable :: string
  x509userproxy_attr :: "string option option"

definition known_detectors :: "string list" where
  "known_detectors = [''H1'', ''L1'', ''V1'']"

definition known_detectors_str :: string where
  "known_detectors_str = [CHR ''['', CHR 0x27, CHR ''H'', CHR ''1'', CHR 0x27, CHR '','', CHR '' '',
     CHR 0x27, CHR ''L'', CHR ''1'', CHR 0x27, CHR '','', CHR '' '',
     CHR 0x27, CHR ''V'', CHR ''1'', CHR 0x27, CHR '']'']"

text \<open>
  The first element of the list that is not a known detector, as the \<^verbatim>\<open>for\<close> loop of
  the setter finds it.
\<close>

fun first_unknown :: "string list \<Rightarrow> string option" where
  "first_unknown [] = None"
| "first_unknown (element # rest) =
     (if element \<in> set known_detectors then first_unknown rest else Some element)"

text \<open>
  The setter of \<^verbatim>\<open>include_detectors\<close>. The list is sorted first and put in upper case
  afterwards, as in the source.
\<close>

definition det_list_of :: "detectors_arg \<Rightarrow> error + string list" where
  "det_list_of v =
     (case v of
        DetStr s \<Rightarrow> Inr (split_string_by_space s)
      | DetList l \<Rightarrow>
          (case l of
             [x] \<Rightarrow> Inr (split_string_by_space x)
           | _ \<Rightarrow> Inr l)
      | DetOther r \<Rightarrow>
          Inl (ValueError (''Input `include_detectors` = '' @ r @ '' not understood'')))"

definition include_detectors_setter :: "detectors_arg \<Rightarrow> error + string list" where
  "include_detectors_setter v =
     (case det_list_of v of
        Inl e \<Rightarrow> Inl e
      | Inr det_list \<Rightarrow>
          (let det_list' = map upper (sort det_list) in
           case first_unknown det_list' of
             Some element \<Rightarrow>
               Inl (ValueError (''include_detectors contains '' @ [CHR 0x22] @ element @ [CHR 0x22]
                      @ '' not in the known detectors list: '' @ known_detectors_str @ '' ''))
           | None \<Rightarrow> Inr det_list'))"

text \<open>The setter of \<^verbatim>\<open>outdir\<close>.\<close>

definition outdir_setter :: "world \<Rightarrow> string \<Rightarrow> world \<times> string" where
  "outdir_setter w d = (check_directory_exists_and_if_not_mkdir w d, abspath w d)"

text \<open>The setter of \<^verbatim>\<open>executable\<close>.\<close>

definition executable_setter :: "world \<Rightarrow> string \<Rightarrow> error + string" where
  "executable_setter w exe =
     (if isfile w exe then Inr exe
      else (let executable_library = ''lib_scripts'';
                executable_path = os_path_join (os_path_join (package_dir w) executable_library) exe
            in if isfile w executable_path then Inr executable_path
               else if isfile w (executable_path @ ''.py'') then Inr (executable_path @ ''.py'')
               else Inl (ValueError ''Unable to identify executable'')))"

text \<open>The getter and the setter of \<^verbatim>\<open>x509userproxy\<close>.\<close>

definition x509userproxy :: "Input \<Rightarrow> error + string option" where
  "x509userproxy self =
     (case x509userproxy_attr self of
        Some v \<Rightarrow> Inr v
      | None \<Rightarrow>
          Inl (ValueError
            ''The X509 user proxy has not been correctly set, please check the logs''))"

definition x509userproxy_setter ::
  "world \<Rightarrow> Input \<Rightarrow> string option \<Rightarrow> error + world \<times> Input" where
  "x509userproxy_setter w self x =
     (case x of
        None \<Rightarrow>
          (let cert_alias = ''X509_USER_PROXY'' in
           case environ w cert_alias of
             None \<Rightarrow>
               Inr (logger_warning w
                      ''Environment variable X509_USER_PROXY not set Try running $ligo-proxy-init albert.einstein'',
                    self\<lparr>x509userproxy_attr := Some None\<rparr>)
           | Some cert_path \<Rightarrow>
               (let new_cert_path = os_path_join (outdir self) (''.'' @ basename cert_path) in
                case copyfile w cert_path new_cert_path of
                  Inr w' \<Rightarrow> Inr (w', self\<lparr>x509userproxy_attr := Some (Some new_cert_path)\<rparr>)
                | Inl e \<Rightarrow>
                    (if e = FileNotFoundError then
                       Inr (logger_warning w
                              ''Environment variable X509_USER_PROXY does not point to a file. Try running $ligo-proxy-init albert.einstein'',
                            self)
                     else Inl e)))
      | Some p \<Rightarrow>
          (if isfile w p then Inr (w, self\<lparr>x509userproxy_attr := Some (Some p)\<rparr>)
           else Inl (ValueError ''Input X509 not a file or not understood'')))"

text \<open>
  \<^verbatim>\<open>Input.__init__\<close>: the attributes are assigned in the order of the source, so the
  first setter that raises decides the error. \<^verbatim>\<open>executable_help\<close> ends the process
  with \<^verbatim>\<open>sys.exit()\<close>.
\<close>

definition Input_init :: "world \<Rightarrow> args \<Rightarrow> string list \<Rightarrow> error + world \<times> Input" where
  "Input_init w a unknown =
     (case outdir_setter w (arg_outdir a) of
        (w1, outdir') \<Rightarrow>
          (case include_detectors_setter (arg_include_detectors a) of
             Inl e \<Rightarrow> Inl e
           | Inr dets \<Rightarrow>
               (case executable_setter w1 (arg_executable a) of
                  Inl e \<Rightarrow> Inl e
                | Inr exe \<Rightarrow>
                    (case x509userproxy_setter w1
                            \<lparr>unknown_args = unknown, ini = arg_ini a, submit = arg_submit a,
                             outdir = outdir', label = arg_label a, queue = arg_queue a,
                             create_summary = arg_create_summary a,
                             accounting = arg_accounting a, sampler = arg_sampler a,
                             include_detectors = dets,
                             coherence_test = arg_coherence_test a, executable = exe,
                             x509userproxy_attr = None\<rparr>
                            (arg_X509 a) of
                       Inl e \<Rightarrow> Inl e
                     | Inr (w2, self) \<Rightarrow>
                         (if arg_exe_help a then Inl SystemExit else Inr (w2, self))))))"

section \<open>The external library pycondor\<close>

text \<open>
  Of \<^verbatim>\<open>pycondor\<close> the model keeps what \<^verbatim>\<open>main.py\<close> relies on. A \<^verbatim>\<open>Job\<close> is the
  record of its constructor's arguments and of its parents. A \<^verbatim>\<open>Dagman\<close> holds its
  nodes in the order they were added; a job is referred to by its position there, so
  two references are equal exactly if they are the same object. \<open>built\<close> records
  which of \<^verbatim>\<open>build()\<close> and \<^verbatim>\<open>build_submit()\<close> was called.
\<close>

record Job =
  job_name :: string
  job_executable :: string
  job_error :: string
  job_log :: string
  job_output :: string
  job_submit :: string
  job_request_memory :: pyval
  job_request_disk :: pyval
  job_request_cpus :: pyval
  job_getenv :: pyval
  job_universe :: pyval
  job_initialdir :: pyval
  job_notification :: pyval
  job_requirements :: pyval
  job_queue :: pyval
  job_extra_lines :: string
  job_arguments :: string
  job_retry :: pyval
  job_verbose :: pyval
  job_parents :: "nat list"

datatype backend_call = Build | BuildSubmit

record Dagman =
  dagman_name :: string
  dagman_submit :: string
  nodes :: "Job list"
  built :: "backend_call option"

text \<open>\<^verbatim>\<open>pycondor.Job(..., dag=dag)\<close>: the new job is added to the dag; its reference is returned.\<close>

definition pycondor_Job :: "Dagman \<Rightarrow> Job \<Rightarrow> Dagman \<times> nat" where
  "pycondor_Job dg j = (dg\<lparr>nodes := nodes dg @ [j]\<rparr>, length (nodes dg))"

text \<open>
  \<^verbatim>\<open>child.add_parent(parent)\<close>: the parent is appended to the parents of the child
  unless it is among them already.
\<close>

definition add_parent :: "Dagman \<Rightarrow> nat \<Rightarrow> nat \<Rightarrow> Dagman" where
  "add_parent dg child parent =
     (if child < length (nodes dg) then
        (let c = nodes dg ! child in
         if parent \<in> set (job_parents c) then dg
         else dg\<lparr>nodes := (nodes dg)[child := c\<lparr>job_parents := job_parents c @ [parent]\<rparr>]\<rparr>)
      else dg)"

section \<open>Dag\<close>

text \<open>The keyword arguments of \<^verbatim>\<open>Dag.__init__\<close> and their default values.\<close>

record Dag_kwargs =
  kw_request_memory :: pyval
  kw_request_disk :: pyval
  kw_request_cpus :: pyval
  kw_getenv :: pyval
  kw_universe :: pyval
  kw_initialdir :: pyval
  kw_notification :: pyval
  kw_requirements :: pyval
  kw_retry :: pyval
  kw_verbose :: pyval

definition Dag_defaults :: Dag_kwargs where
  "Dag_defaults =
     \<lparr>kw_request_memory = PyNone, kw_request_disk = PyNone, kw_request_cpus = PyNone,
      kw_getenv = PyBool True, kw_universe = PyStr ''vanilla'', kw_initialdir = PyNone,
      kw_notification = PyStr ''never'', kw_requirements = PyNone, kw_retry = PyNone,
      kw_verbose = PyInt 0\<rparr>"

record Dag =
  request_memory :: pyval
  request_disk :: pyval
  request_cpus :: pyval
  getenv :: pyval
  universe :: pyval
  initialdir :: pyval
  notification :: pyval
  requirements :: pyval
  retry :: pyval
  verbose :: pyval
  inputs :: Input
  dag :: Dagman
  jobs :: "nat list"
  results_pages :: "(string \<times> string) list"

definition submit_directory :: "Input \<Rightarrow> string" where
  "submit_directory inp = os_path_join (outdir inp) ''submit''"

text \<open>
  \<^verbatim>\<open>itertools.product(xs, ys)\<close>: the pairs \<^verbatim>\<open>((x, y) for x in xs for y in ys)\<close>.
\<close>

definition itertools_product :: "'a list \<Rightarrow> 'b list \<Rightarrow> ('a \<times> 'b) list" where
  "itertools_product xs ys = concat (map (\<lambda>x. map (\<lambda>y. (x, y)) ys) xs)"

text \<open>
  The property \<^verbatim>\<open>jobs_inputs\<close>. A dictionary \<^verbatim>\<open>dict(detectors=d, sampler=s)\<close> is the
  pair \<open>(d, s)\<close>. Each \<^verbatim>\<open>for\<close> statement appends to a list that starts empty.
\<close>

definition detectors_list :: "Input \<Rightarrow> string list list" where
  "detectors_list inp =
     (let dl = [] @ [include_detectors inp] in
      if coherence_test inp
      then foldl (\<lambda>acc detector. acc @ [[detector]]) dl (include_detectors inp)
      else dl)"

definition jobs_inputs :: "Input \<Rightarrow> (string list \<times> string) list" where
  "jobs_inputs inp =
     (let sampler_list = sampler inp;
          prod_list = itertools_product (detectors_list inp) sampler_list
      in foldl (\<lambda>acc ds. acc @ [(fst ds, snd ds)]) [] prod_list)"

text \<open>
  \<^verbatim>\<open>_create_job\<close>; the strings it builds (\<^verbatim>\<open>run_label\<close>, \<^verbatim>\<open>arguments\<close>,
  \<^verbatim>\<open>extra_lines\<close>) are functions of their own. The argument \<^verbatim>\<open>detectors\<close> is a list by its type, so the
  \<^verbatim>\<open>isinstance\<close> check of the source cannot fail here. Reading
  \<^verbatim>\<open>self.inputs.x509userproxy\<close> may raise. The result is the new state and the reference
  of the job.
\<close>

definition run_label_of :: "Input \<Rightarrow> string list \<Rightarrow> string \<Rightarrow> string" where
  "run_label_of inp detectors smp = label inp @ ''_'' @ concat detectors @ ''_'' @ smp"

definition arguments_of :: "Input \<Rightarrow> string list \<Rightarrow> string \<Rightarrow> string" where
  "arguments_of inp detectors smp =
     (let arguments = ''--ini '' @ ini inp;
          arguments = foldl (\<lambda>a detector. a @ '' --detectors '' @ detector) arguments detectors;
          arguments = arguments @ '' --sampler '' @ smp;
          arguments = arguments @ '' --cluster $(Cluster)'';
          arguments = arguments @ '' --process $(Process)'';
          arguments = arguments @ '' '' @ join '' '' (unknown_args inp)
      in arguments)"

definition extra_lines_of :: "Input \<Rightarrow> string option \<Rightarrow> string" where
  "extra_lines_of inp proxy =
     (let extra_lines = ''accounting_group='' @ accounting inp;
          extra_lines = extra_lines @ [CHR 0x0A] @ ''x509userproxy=''
                        @ (case proxy of None \<Rightarrow> ''None'' | Some p \<Rightarrow> p)
      in extra_lines)"

definition create_job :: "Dag \<Rightarrow> string list \<Rightarrow> string \<Rightarrow> error + Dag \<times> nat" where
  "create_job self detectors smp =
     (let job_logs_path = os_path_join (outdir (inputs self)) ''logs'';
          submit' = submit_directory (inputs self)
      in case x509userproxy (inputs self) of
           Inl e \<Rightarrow> Inl e
         | Inr proxy \<Rightarrow>
             (let extra_lines = extra_lines_of (inputs self) proxy;
                  arguments = arguments_of (inputs self) detectors smp;
                  run_label = run_label_of (inputs self) detectors smp
              in case pycondor_Job (dag self)
                   \<lparr>job_name = run_label, job_executable = executable (inputs self),
                    job_error = job_logs_path, job_log = job_logs_path,
                    job_output = job_logs_path, job_submit = submit',
                    job_request_memory = request_memory self,
                    job_request_disk = request_disk self,
                    job_request_cpus = request_cpus self,
                    job_getenv = getenv self, job_universe = universe self,
                    job_initialdir = initialdir self, job_notification = notification self,
                    job_requirements = requirements self,
                    job_queue = PyInt (queue (inputs self)),
                    job_extra_lines = extra_lines, job_arguments = arguments,
                    job_retry = retry self, job_verbose = verbose self,
                    job_parents = []\<rparr> of
                   (dag', job) \<Rightarrow>
                     Inr (self\<lparr>dag := dag',
                               results_pages :=
                                 AList.update run_label (run_label @ ''.html'') (results_pages self)\<rparr>,
                          job)))"

text \<open>
  \<^verbatim>\<open>create_jobs\<close>: \<^verbatim>\<open>self.jobs_inputs\<close> is read once, then each entry is compiled and
  the job appended to \<^verbatim>\<open>self.jobs\<close>; the first exception ends the loop.
\<close>

fun create_jobs_loop :: "Dag \<Rightarrow> (string list \<times> string) list \<Rightarrow> error + Dag" where
  "create_jobs_loop self [] = Inr self"
| "create_jobs_loop self (job_input # rest) =
     (case create_job self (fst job_input) (snd job_input) of
        Inl e \<Rightarrow> Inl e
      | Inr (self', job) \<Rightarrow> create_jobs_loop (self'\<lparr>jobs := jobs self' @ [job]\<rparr>) rest)"

definition create_jobs :: "Dag \<Rightarrow> error + Dag" where
  "create_jobs self = create_jobs_loop self (jobs_inputs (inputs self))"

text \<open>
  \<^verbatim>\<open>create_postprocessing_jobs\<close>. The keyword arguments that the source does not pass
  to \<^verbatim>\<open>pycondor.Job\<close> take the defaults of \<^verbatim>\<open>pycondor\<close>.
\<close>

definition create_postprocessing_jobs :: "Dag \<Rightarrow> Dag" where
  "create_postprocessing_jobs self =
     (let job_logs_path = os_path_join (outdir (inputs self)) ''logs'';
          submit' = submit_directory (inputs self);
          name = label (inputs self) @ ''_combine_results'';
          extra_lines = ''accounting_group='' @ accounting (inputs self);
          expected_h5_files =
            map (\<lambda>job. outdir (inputs self) @ ''/'' @ job_name (nodes (dag self) ! job)
                        @ ''_result.h5'') (jobs self);
          labels = join '' '' (map (\<lambda>job. concat (fst job)) (jobs_inputs (inputs self)));
          arguments = ''-r '' @ join '' '' expected_h5_files @ '' -f '' @ outdir (inputs self)
                      @ ''/'' @ name @ ''_corner.png -l '' @ labels;
          executable' = ''/home/gregory.ashton/anaconda3/bin/bilby_plot''
      in case pycondor_Job (dag self)
           \<lparr>job_name = name, job_executable = executable',
            job_error = job_logs_path, job_log = job_logs_path,
            job_output = job_logs_path, job_submit = submit',
            job_request_memory = PyNone, job_request_disk = PyNone,
            job_request_cpus = PyNone, job_getenv = PyNone, job_universe = PyNone,
            job_initialdir = PyNone, job_notification = PyNone,
            job_requirements = PyNone, job_queue = PyNone,
            job_extra_lines = extra_lines, job_arguments = arguments,
            job_retry = PyNone, job_verbose = PyInt 0,
            job_parents = []\<rparr> of
           (dag', post_job) \<Rightarrow>
             self\<lparr>dag := foldl (\<lambda>dg job. add_parent dg post_job job) dag' (jobs self)\<rparr>)"

definition build_submit :: "Dag \<Rightarrow> Dag" where
  "build_submit self =
     self\<lparr>dag := (dag self)\<lparr>built := Some (if submit (inputs self) then BuildSubmit else Build)\<rparr>\<rparr>"

text \<open>
  \<^verbatim>\<open>Dag.__init__\<close>. The attribute \<^verbatim>\<open>request_cpus\<close> is assigned from the parameter
  \<^verbatim>\<open>request_disk\<close>, as in the source.
\<close>

definition Dag_init :: "Input \<Rightarrow> Dag_kwargs \<Rightarrow> error + Dag" where
  "Dag_init inp kw =
     (let self = \<lparr>request_memory = kw_request_memory kw,
                  request_disk = kw_request_disk kw,
                  request_cpus = kw_request_disk kw,
                  getenv = kw_getenv kw, universe = kw_universe kw,
                  initialdir = kw_initialdir kw, notification = kw_notification kw,
                  requirements = kw_requirements kw, retry = kw_retry kw,
                  verbose = kw_verbose kw, inputs = inp,
                  dag = \<lparr>dagman_name = ''main_'' @ label inp,
                         dagman_submit = submit_directory inp, nodes = [], built = None\<rparr>,
                  jobs = [], results_pages = []\<rparr>
      in case create_jobs self of
           Inl e \<Rightarrow> Inl e
         | Inr self' \<Rightarrow> Inr (build_submit (create_postprocessing_jobs self')))"

text \<open>The job objects that \<^verbatim>\<open>self.jobs\<close> refers to.\<close>

definition leaf_jobs :: "Dag \<Rightarrow> Job list" where
  "leaf_jobs self = map (\<lambda>job. nodes (dag self) ! job) (jobs self)"

section \<open>Example inputs\<close>

text \<open>
  The arguments of \<^verbatim>\<open>tests/dag_test.py\<close> (with the executable that is in
  \<^verbatim>\<open>lib_scripts\<close>, and the defaults of the parser for \<^verbatim>\<open>queue\<close> and
  \<^verbatim>\<open>create_summary\<close>), a world in which the executable and the certificate exist and every path may be
  accessed, and
  the \<^verbatim>\<open>Input\<close> object built from them.
\<close>

definition example_args :: args where
  "example_args =
     \<lparr>arg_ini = ''file.ini'', arg_submit = False, arg_outdir = ''outdir'', arg_label = ''label'',
      arg_queue = 1, arg_create_summary = False, arg_accounting = ''accounting.group'',
      arg_sampler = [''nestle''], arg_include_detectors = DetStr ''H1'',
      arg_coherence_test = False, arg_executable = ''generate_interferometer_list'',
      arg_X509 = Some ''/repo/tests/X509.txt'', arg_exe_help = False\<rparr>"

definition example_unknown_args :: "string list" where
  "example_unknown_args = [''--argument'', ''value'']"

definition example_world :: world where
  "example_world =
     \<lparr>environ = Map.empty,
      fs = [''/repo/lib_scripts/generate_interferometer_list.py'' \<mapsto> File ''script'',
            ''/repo/tests/X509.txt'' \<mapsto> File ''certificate''],
      denied = (\<lambda>p. False),
      abspath = (\<lambda>p. os_path_join ''/repo'' p),
      package_dir = ''/repo'',
      warnings = []\<rparr>"


definition example_inputs :: Input where
  "example_inputs =
     \<lparr>unknown_args = [''--argument'', ''value''], ini = ''file.ini'', submit = False,
      outdir = ''/repo/outdir'', label = ''label'', queue = 1, create_summary = False,
      accounting = ''accounting.group'', sampler = [''nestle''], include_detectors = [''H1''],
      coherence_test = False,
      executable = ''/repo/lib_scripts/generate_interferometer_list.py'',
      x509userproxy_attr = Some (Some ''/repo/tests/X509.txt'')\<rparr>"

text \<open>
  The state of a \<^verbatim>\<open>Dag\<close> for the example inputs with the default keyword arguments,
  as \<^verbatim>\<open>Dag.__init__\<close> has it before \<^verbatim>\<open>create_jobs\<close>.
\<close>

definition example_dag :: Dag where
  "example_dag =
     \<lparr>request_memory = PyNone, request_disk = PyNone, request_cpus = PyNone,
      getenv = PyBool True, universe = PyStr ''vanilla'', initialdir = PyNone,
      notification = PyStr ''never'', requirements = PyNone, retry = PyNone,
      verbose = PyInt 0, inputs = example_inputs,
      dag = \<lparr>dagman_name = ''main_label'', dagman_submit = ''/repo/outdir/submit'',
             nodes = [], built = None\<rparr>,
      jobs = [], results_pages = []\<rparr>"

section \<open>Auxiliary facts\<close>

text \<open>The example \<^verbatim>\<open>Input\<close> object is the one that \<^verbatim>\<open>Input.__init__\<close> builds.\<close>

lemma example_inputs_built:
  "\<not> isl (Input_init example_world example_args example_unknown_args) \<and>
   snd (projr (Input_init example_world example_args example_unknown_args)) = example_inputs"
  by code_simp

lemma foldl_snoc: "foldl (\<lambda>acc x. acc @ [f x]) a xs = a @ map f xs"
  by (induction xs arbitrary: a) simp_all

lemma detectors_list_eq:
  "detectors_list inp =
     include_detectors inp #
       (if coherence_test inp then map (\<lambda>d. [d]) (include_detectors inp) else [])"
  by (simp add: detectors_list_def foldl_snoc)

lemma jobs_inputs_product:
  "jobs_inputs inp = List.product (detectors_list inp) (sampler inp)"
  by (simp add: jobs_inputs_def itertools_product_def foldl_snoc product_concat_map)







lemma first_unknown_None: "first_unknown ds = None \<longleftrightarrow> set ds \<subseteq> set known_detectors"
  by (induction ds) auto

lemma upper_known: "d \<in> set known_detectors \<Longrightarrow> upper d = d"
  by (auto simp: known_detectors_def upper_def upper_char_def)







lemma setter_result:
  assumes "include_detectors_setter v = Inr ds"
  shows "\<exists>l. det_list_of v = Inr l \<and> ds = map upper (sort l) \<and> set ds \<subseteq> set known_detectors"
  using assms
  by (auto simp: include_detectors_setter_def Let_def first_unknown_None
           split: sum.splits option.splits)

lemma isfile_mkdir [simp]:
  "isfile (check_directory_exists_and_if_not_mkdir w d) p = isfile w p"
  by (auto simp: isfile_def check_directory_exists_and_if_not_mkdir_def split: option.splits node.splits)

lemma x509_setter_bad_path:
  "\<not> isfile w p \<Longrightarrow>
   x509userproxy_setter w self (Some p) = Inl (ValueError ''Input X509 not a file or not understood'')"
  by (simp add: x509userproxy_setter_def)




lemma environ_mkdir [simp]:
  "environ (check_directory_exists_and_if_not_mkdir w d) = environ w"
  "warnings (check_directory_exists_and_if_not_mkdir w d) = warnings w"
  by (auto simp: check_directory_exists_and_if_not_mkdir_def split: option.splits)

lemma copyfile_not_walkable:
  "walk w (ancestors p) = Some e \<Longrightarrow> copyfile w p dst = Inl e"
  by (simp add: copyfile_def open_rb_def)

lemma x509_setter_copy_error:
  "environ w ''X509_USER_PROXY'' = Some p \<Longrightarrow>
   copyfile w p (os_path_join (outdir self) (''.'' @ basename p)) = Inl e \<Longrightarrow>
   e \<noteq> FileNotFoundError \<Longrightarrow>
   x509userproxy_setter w self None = Inl e"
  by (simp add: x509userproxy_setter_def)

lemma foldl_append_each:
  "foldl (\<lambda>a d. a @ p @ d) a ds = a @ concat (map (\<lambda>d. p @ d) ds)"
  by (induction ds arbitrary: a) simp_all

lemma arguments_of_eq:
  "arguments_of inp detectors smp =
     ''--ini '' @ ini inp @ concat (map (\<lambda>d. '' --detectors '' @ d) detectors)
       @ '' --sampler '' @ smp @ '' --cluster $(Cluster)'' @ '' --process $(Process)''
       @ '' '' @ join '' '' (unknown_args inp)"
  by (simp add: arguments_of_def foldl_append_each del: append.simps)

lemma x509userproxy_set:
  "x509userproxy_attr inp = Some v \<Longrightarrow> x509userproxy inp = Inr v"
  by (simp add: x509userproxy_def)

lemma create_job_ok:
  assumes "x509userproxy_attr (inputs self) = Some v"
  shows "\<exists>j rp. create_job self detectors smp
           = Inr (self\<lparr>dag := (dag self)\<lparr>nodes := nodes (dag self) @ [j]\<rparr>, results_pages := rp\<rparr>,
                  length (nodes (dag self)))
         \<and> job_name j = run_label_of (inputs self) detectors smp
         \<and> job_arguments j = arguments_of (inputs self) detectors smp
         \<and> job_request_memory j = request_memory self
         \<and> job_request_disk j = request_disk self
         \<and> job_request_cpus j = request_cpus self
         \<and> job_parents j = []"
  unfolding create_job_def x509userproxy_set[OF assms] pycondor_Job_def Let_def sum.case prod.case
  by (intro exI conjI, rule refl) simp_all

lemma create_jobs_loop_ok:
  assumes "x509userproxy_attr (inputs self) = Some v"
  shows "\<exists>js rp. create_jobs_loop self jis
           = Inr (self\<lparr>dag := (dag self)\<lparr>nodes := nodes (dag self) @ js\<rparr>,
                       jobs := jobs self @ [length (nodes (dag self)) ..< length (nodes (dag self)) + length jis],
                       results_pages := rp\<rparr>)
         \<and> map job_name js = map (\<lambda>ji. run_label_of (inputs self) (fst ji) (snd ji)) jis
         \<and> map job_arguments js = map (\<lambda>ji. arguments_of (inputs self) (fst ji) (snd ji)) jis
         \<and> map job_request_memory js = map (\<lambda>ji. request_memory self) jis
         \<and> map job_request_disk js = map (\<lambda>ji. request_disk self) jis
         \<and> map job_request_cpus js = map (\<lambda>ji. request_cpus self) jis"
  using assms
proof (induction jis arbitrary: self)
  case Nil
  show ?case by (rule exI[of _ "[]"], rule exI[of _ "results_pages self"]) simp
next
  case (Cons ji jis)
  from create_job_ok[OF Cons.prems, of "fst ji" "snd ji"]
  obtain j rp where cj: "create_job self (fst ji) (snd ji)
           = Inr (self\<lparr>dag := (dag self)\<lparr>nodes := nodes (dag self) @ [j]\<rparr>, results_pages := rp\<rparr>,
                  length (nodes (dag self)))"
    and j: "job_name j = run_label_of (inputs self) (fst ji) (snd ji)"
       "job_arguments j = arguments_of (inputs self) (fst ji) (snd ji)"
       "job_request_memory j = request_memory self"
       "job_request_disk j = request_disk self"
       "job_request_cpus j = request_cpus self"
    by blast
  let ?n = "length (nodes (dag self))"
  let ?s1 = "self\<lparr>dag := (dag self)\<lparr>nodes := nodes (dag self) @ [j]\<rparr>, results_pages := rp,
                   jobs := jobs self @ [?n]\<rparr>"
  have p1: "x509userproxy_attr (inputs ?s1) = Some v" using Cons.prems by simp
  from Cons.IH[OF p1]
  obtain js rp' where loop: "create_jobs_loop ?s1 jis
           = Inr (?s1\<lparr>dag := (dag ?s1)\<lparr>nodes := nodes (dag ?s1) @ js\<rparr>,
                       jobs := jobs ?s1 @ [length (nodes (dag ?s1)) ..< length (nodes (dag ?s1)) + length jis],
                       results_pages := rp'\<rparr>)"
    and js: "map job_name js = map (\<lambda>ji. run_label_of (inputs ?s1) (fst ji) (snd ji)) jis"
       "map job_arguments js = map (\<lambda>ji. arguments_of (inputs ?s1) (fst ji) (snd ji)) jis"
       "map job_request_memory js = map (\<lambda>ji. request_memory ?s1) jis"
       "map job_request_disk js = map (\<lambda>ji. request_disk ?s1) jis"
       "map job_request_cpus js = map (\<lambda>ji. request_cpus ?s1) jis"
    by blast
  have "[?n ..< ?n + length (ji # jis)] = ?n # [Suc ?n ..< ?n + length (ji # jis)]"
    by (rule upt_conv_Cons) simp
  then have upt: "[?n] @ [Suc ?n ..< Suc ?n + length jis] = [?n ..< ?n + length (ji # jis)]"
    by simp
  show ?case
  proof (intro exI[of _ "j # js"] exI[of _ rp'] conjI)
    show "create_jobs_loop self (ji # jis)
           = Inr (self\<lparr>dag := (dag self)\<lparr>nodes := nodes (dag self) @ (j # js)\<rparr>,
                       jobs := jobs self @ [?n ..< ?n + length (ji # jis)],
                       results_pages := rp'\<rparr>)"
      using cj loop upt by simp
  qed (use j js in simp_all)
qed


lemma add_parents_fold:
  assumes "k < length (nodes dg)"
  shows "foldl (\<lambda>d job. add_parent d k job) dg js
         = dg\<lparr>nodes := (nodes dg)[k := (nodes dg ! k)
              \<lparr>job_parents := foldl (\<lambda>ps j. if j \<in> set ps then ps else ps @ [j])
                                   (job_parents (nodes dg ! k)) js\<rparr>]\<rparr>"
  using assms
proof (induction js arbitrary: dg)
  case Nil
  then show ?case by simp
next
  case (Cons j js)
  let ?d1 = "add_parent dg k j"
  have len: "k < length (nodes ?d1)"
    using Cons.prems by (simp add: add_parent_def Let_def)
  show ?case
    using Cons.prems
    by (simp add: Cons.IH[OF len]) (simp add: add_parent_def Let_def)
qed

lemma post_job_fold:
  "foldl (\<lambda>dg job. add_parent dg (length (nodes d)) job) (d\<lparr>nodes := nodes d @ [j]\<rparr>) js
   = d\<lparr>nodes := nodes d @ [j\<lparr>job_parents :=
          foldl (\<lambda>ps j. if j \<in> set ps then ps else ps @ [j]) (job_parents j) js\<rparr>]\<rparr>"
  by (subst add_parents_fold) simp_all

lemma insert_fold_set:
  "set (foldl (\<lambda>ps j. if j \<in> set ps then ps else ps @ [j]) ps js) = set ps \<union> set js"
  by (induction js arbitrary: ps) auto

lemma insert_fold_distinct:
  "distinct js \<Longrightarrow> set ps \<inter> set js = {} \<Longrightarrow>
   foldl (\<lambda>ps j. if j \<in> set ps then ps else ps @ [j]) ps js = ps @ js"
  by (induction js arbitrary: ps) auto

lemma create_postprocessing_jobs_eq:
  "\<exists>post. create_postprocessing_jobs self
             = self\<lparr>dag := (dag self)\<lparr>nodes := nodes (dag self) @ [post]\<rparr>\<rparr>
         \<and> job_name post = label (inputs self) @ ''_combine_results''
         \<and> job_parents post
             = foldl (\<lambda>ps j. if j \<in> set ps then ps else ps @ [j]) [] (jobs self)"
  unfolding create_postprocessing_jobs_def pycondor_Job_def Let_def prod.case post_job_fold
  by (intro exI conjI, rule refl) simp_all

lemma nth_prefix: "map (\<lambda>i. (xs @ ys) ! i) [0..<length xs] = xs"
  by (rule nth_equalityI) (simp_all add: nth_append)


lemma build_submit_proj [simp]:
  "nodes (dag (build_submit self)) = nodes (dag self)"
  "jobs (build_submit self) = jobs self"
  "inputs (build_submit self) = inputs self"
  by (simp_all add: build_submit_def)

lemma Dag_init_ok:
  assumes "x509userproxy_attr inp = Some v"
  shows "\<exists>self js post. Dag_init inp kw = Inr self
         \<and> inputs self = inp
         \<and> nodes (dag self) = js @ [post]
         \<and> jobs self = [0..<length js]
         \<and> leaf_jobs self = js
         \<and> length js = length (jobs_inputs inp)
         \<and> map job_name js = map (\<lambda>ji. run_label_of inp (fst ji) (snd ji)) (jobs_inputs inp)
         \<and> map job_arguments js = map (\<lambda>ji. arguments_of inp (fst ji) (snd ji)) (jobs_inputs inp)
         \<and> map job_request_memory js = map (\<lambda>ji. kw_request_memory kw) (jobs_inputs inp)
         \<and> map job_request_disk js = map (\<lambda>ji. kw_request_disk kw) (jobs_inputs inp)
         \<and> map job_request_cpus js = map (\<lambda>ji. kw_request_disk kw) (jobs_inputs inp)
         \<and> job_name post = label inp @ ''_combine_results''
         \<and> job_parents post = [0..<length js]"
proof -
  define s0 where "s0 = \<lparr>request_memory = kw_request_memory kw,
                  request_disk = kw_request_disk kw,
                  request_cpus = kw_request_disk kw,
                  getenv = kw_getenv kw, universe = kw_universe kw,
                  initialdir = kw_initialdir kw, notification = kw_notification kw,
                  requirements = kw_requirements kw, retry = kw_retry kw,
                  verbose = kw_verbose kw, inputs = inp,
                  dag = \<lparr>dagman_name = ''main_'' @ label inp,
                         dagman_submit = submit_directory inp, nodes = [], built = None\<rparr>,
                  jobs = [], results_pages = []\<rparr>"
  have s0: "inputs s0 = inp" "nodes (dag s0) = []" "jobs s0 = []"
    "request_memory s0 = kw_request_memory kw" "request_disk s0 = kw_request_disk kw"
    "request_cpus s0 = kw_request_disk kw"
    by (simp_all add: s0_def)
  have di: "Dag_init inp kw =
              (case create_jobs s0 of Inl e \<Rightarrow> Inl e
               | Inr self' \<Rightarrow> Inr (build_submit (create_postprocessing_jobs self')))"
    unfolding Dag_init_def Let_def s0_def[symmetric] ..
  have p0: "x509userproxy_attr (inputs s0) = Some v" using assms by (simp add: s0)
  from create_jobs_loop_ok[OF p0, of "jobs_inputs inp"]
  obtain js rp where loop: "create_jobs_loop s0 (jobs_inputs inp)
           = Inr (s0\<lparr>dag := (dag s0)\<lparr>nodes := nodes (dag s0) @ js\<rparr>,
                       jobs := jobs s0 @ [length (nodes (dag s0)) ..< length (nodes (dag s0)) + length (jobs_inputs inp)],
                       results_pages := rp\<rparr>)"
    and js: "map job_name js = map (\<lambda>ji. run_label_of (inputs s0) (fst ji) (snd ji)) (jobs_inputs inp)"
       "map job_arguments js = map (\<lambda>ji. arguments_of (inputs s0) (fst ji) (snd ji)) (jobs_inputs inp)"
       "map job_request_memory js = map (\<lambda>ji. request_memory s0) (jobs_inputs inp)"
       "map job_request_disk js = map (\<lambda>ji. request_disk s0) (jobs_inputs inp)"
       "map job_request_cpus js = map (\<lambda>ji. request_cpus s0) (jobs_inputs inp)"
    by blast
  from js(1) have len: "length js = length (jobs_inputs inp)"
    by (metis length_map)
  define s1 where "s1 = s0\<lparr>dag := (dag s0)\<lparr>nodes := js\<rparr>, jobs := [0..<length js], results_pages := rp\<rparr>"
  have s1: "inputs s1 = inp" "nodes (dag s1) = js" "jobs s1 = [0..<length js]"
    by (simp_all add: s1_def s0)
  have cj: "create_jobs s0 = Inr s1"
    using loop len by (simp add: create_jobs_def s0 s1_def)
  from create_postprocessing_jobs_eq[of s1]
  obtain post where post: "create_postprocessing_jobs s1
             = s1\<lparr>dag := (dag s1)\<lparr>nodes := nodes (dag s1) @ [post]\<rparr>\<rparr>"
     "job_name post = label (inputs s1) @ ''_combine_results''"
     "job_parents post = foldl (\<lambda>ps j. if j \<in> set ps then ps else ps @ [j]) [] (jobs s1)"
    by blast
  define s2 where "s2 = build_submit (create_postprocessing_jobs s1)"
  have s2: "inputs s2 = inp" "nodes (dag s2) = js @ [post]" "jobs s2 = [0..<length js]"
    by (simp_all add: s2_def post(1) s1)
  have par: "job_parents post = [0..<length js]"
    using post(3) insert_fold_distinct[of "[0..<length js]" "[]"] by (simp add: s1)
  have fin: "Dag_init inp kw = Inr s2"
    by (simp add: di cj s2_def)
  have leaf: "leaf_jobs s2 = js"
    by (simp add: leaf_jobs_def s2 nth_prefix)
  show ?thesis
    using fin s2 leaf len js par post(2) by (simp add: s0 s1)
qed

lemma known_detector_shape:
  "d \<in> set known_detectors \<Longrightarrow> CHR ''_'' \<notin> set d \<and> length d = 2"
  by (auto simp: known_detectors_def)

lemma concat_known_shape:
  "set ds \<subseteq> set known_detectors \<Longrightarrow>
   CHR ''_'' \<notin> set (concat ds) \<and> length (concat ds) = 2 * length ds"
  by (induction ds) (auto dest: known_detector_shape)

lemma split_at_underscore:
  "CHR ''_'' \<notin> set a \<Longrightarrow> CHR ''_'' \<notin> set b \<Longrightarrow>
   a @ CHR ''_'' # s = b @ CHR ''_'' # t \<Longrightarrow> a = b \<and> s = t"
proof (induction a arbitrary: b)
  case Nil
  then show ?case by (cases b) auto
next
  case (Cons x a)
  then show ?case by (cases b) auto
qed

lemma run_label_of_inj:
  assumes "CHR ''_'' \<notin> set (concat ds)" and "CHR ''_'' \<notin> set (concat ds')"
    and "run_label_of inp ds s = run_label_of inp ds' s'"
  shows "concat ds = concat ds' \<and> s = s'"
proof -
  from assms(3) have "concat ds @ CHR ''_'' # s = concat ds' @ CHR ''_'' # s'"
    by (simp add: run_label_of_def)
  with assms(1,2) show ?thesis by (rule split_at_underscore)
qed

lemma detectors_list_distinct:
  assumes "distinct (include_detectors inp)"
    and "set (include_detectors inp) \<subseteq> set known_detectors"
    and "\<not> (coherence_test inp \<and> length (include_detectors inp) = 1)"
  shows "distinct (map concat (detectors_list inp))"
proof (cases "coherence_test inp")
  case False
  then show ?thesis by (simp add: detectors_list_eq)
next
  case True
  with assms(3) have n: "length (include_detectors inp) \<noteq> 1" by simp
  have single: "map concat (map (\<lambda>d. [d]) (include_detectors inp)) = include_detectors inp"
    by (simp add: comp_def)
  have "concat (include_detectors inp) \<notin> set (include_detectors inp)"
  proof
    assume "concat (include_detectors inp) \<in> set (include_detectors inp)"
    with assms(2) have "length (concat (include_detectors inp)) = 2"
      using known_detector_shape by blast
    moreover from concat_known_shape[OF assms(2)]
    have "length (concat (include_detectors inp)) = 2 * length (include_detectors inp)" by simp
    ultimately show False using n by simp
  qed
  with True assms(1) single show ?thesis
    by (simp add: detectors_list_eq comp_def)
qed

lemma detectors_list_known:
  assumes "set (include_detectors inp) \<subseteq> set known_detectors"
    and "ds \<in> set (detectors_list inp)"
  shows "set ds \<subseteq> set known_detectors"
  using assms by (auto simp: detectors_list_eq split: if_splits)

lemma run_labels_distinct:
  assumes "distinct (include_detectors inp)"
    and "set (include_detectors inp) \<subseteq> set known_detectors"
    and "distinct (sampler inp)"
    and "\<not> (coherence_test inp \<and> length (include_detectors inp) = 1)"
  shows "distinct (map (\<lambda>ji. run_label_of inp (fst ji) (snd ji)) (jobs_inputs inp))"
proof -
  let ?dl = "detectors_list inp"
  from detectors_list_distinct[OF assms(1,2,4)]
  have dl: "distinct ?dl" and inj: "inj_on concat (set ?dl)"
    by (simp_all add: distinct_map)
  have d: "distinct (List.product ?dl (sampler inp))"
    using dl assms(3) by (rule distinct_product)
  have "inj_on (\<lambda>ji. run_label_of inp (fst ji) (snd ji)) (set (List.product ?dl (sampler inp)))"
  proof (rule inj_onI)
    fix x y
    assume x: "x \<in> set (List.product ?dl (sampler inp))"
      and y: "y \<in> set (List.product ?dl (sampler inp))"
      and eq: "run_label_of inp (fst x) (snd x) = run_label_of inp (fst y) (snd y)"
    from x y have fx: "fst x \<in> set ?dl" and fy: "fst y \<in> set ?dl" by auto
    have ux: "CHR ''_'' \<notin> set (concat (fst x))"
      using concat_known_shape[OF detectors_list_known[OF assms(2) fx]] by simp
    have uy: "CHR ''_'' \<notin> set (concat (fst y))"
      using concat_known_shape[OF detectors_list_known[OF assms(2) fy]] by simp
    from run_label_of_inj[OF ux uy eq]
    have "concat (fst x) = concat (fst y)" and s: "snd x = snd y" by simp_all
    with inj fx fy have "fst x = fst y" by (auto dest: inj_onD)
    with s show "x = y" by (simp add: prod_eq_iff)
  qed
  with d show ?thesis
    by (simp add: distinct_map jobs_inputs_product)
qed

section \<open>The job inputs\<close>

text \<open>
  Claim C5. For every configuration, \<^verbatim>\<open>jobs_inputs\<close> is the sequence of pairs of a
  detector subset and a sampler, where the subsets are the full detector list first and
  then, if \<^verbatim>\<open>coherence_test\<close> is set, one singleton per detector in the order of the
  list, and where each subset is paired with every sampler in the configured order, the
  sampler varying fastest: entry \<open>i * m + j\<close> pairs subset \<open>i\<close> with sampler \<open>j\<close>, for
  \<open>m\<close> samplers. For the detectors H1 and L1, the sampler nestle and the coherence test
  this is (H1 L1, nestle), (H1, nestle), (L1, nestle), in this order.
\<close>

theorem jobs_inputs_is_ordered_pairing:
  "jobs_inputs inp =
     List.product
       (include_detectors inp #
          (if coherence_test inp then map (\<lambda>d. [d]) (include_detectors inp) else []))
       (sampler inp)
   \<and> length (jobs_inputs inp) =
       (1 + (if coherence_test inp then length (include_detectors inp) else 0))
         * length (sampler inp)
   \<and> (\<forall>i j. i < length (detectors_list inp) \<and> j < length (sampler inp) \<longrightarrow>
          jobs_inputs inp ! (i * length (sampler inp) + j)
            = (detectors_list inp ! i, sampler inp ! j))
   \<and> detectors_list inp =
       include_detectors inp #
          (if coherence_test inp then map (\<lambda>d. [d]) (include_detectors inp) else [])
   \<and> jobs_inputs (example_inputs\<lparr>include_detectors := [''H1'', ''L1''],
                                  sampler := [''nestle''], coherence_test := True\<rparr>)
       = [([''H1'', ''L1''], ''nestle''), ([''H1''], ''nestle''), ([''L1''], ''nestle'')]"
proof (intro conjI allI impI)
  show "jobs_inputs inp =
     List.product
       (include_detectors inp #
          (if coherence_test inp then map (\<lambda>d. [d]) (include_detectors inp) else []))
       (sampler inp)"
    by (simp only: jobs_inputs_product detectors_list_eq)
  show "length (jobs_inputs inp) =
       (1 + (if coherence_test inp then length (include_detectors inp) else 0))
         * length (sampler inp)"
    by (simp add: jobs_inputs_product detectors_list_eq)
  show "detectors_list inp =
       include_detectors inp #
          (if coherence_test inp then map (\<lambda>d. [d]) (include_detectors inp) else [])"
    by (rule detectors_list_eq)
  show "jobs_inputs (example_inputs\<lparr>include_detectors := [''H1'', ''L1''],
                                  sampler := [''nestle''], coherence_test := True\<rparr>)
       = [([''H1'', ''L1''], ''nestle''), ([''H1''], ''nestle''), ([''L1''], ''nestle'')]"
    by (simp add: jobs_inputs_product detectors_list_eq)
next
  fix i j
  assume ij: "i < length (detectors_list inp) \<and> j < length (sampler inp)"
  let ?m = "length (sampler inp)"
  from ij have bound: "i * ?m + j < length (detectors_list inp) * ?m"
  proof -
    from ij have "i * ?m + j < i * ?m + ?m" by simp
    also have "\<dots> = Suc i * ?m" by simp
    also from ij have "\<dots> \<le> length (detectors_list inp) * ?m"
      by (intro mult_le_mono1) simp
    finally show ?thesis .
  qed
  from ij have jm: "j < ?m" by simp
  then have mpos: "0 < ?m" by (cases "sampler inp") simp_all
  have d: "(i * ?m + j) div ?m = i"
    using jm mpos by (simp add: div_mult_self3 add.commute)
  have m: "(i * ?m + j) mod ?m = j"
    using jm by simp
  show "jobs_inputs inp ! (i * ?m + j) = (detectors_list inp ! i, sampler inp ! j)"
    using product_nth[OF bound] d m by (simp add: jobs_inputs_product)
qed

theorem jobs_inputs_is_ordered_pairing_witness:
  "jobs_inputs (example_inputs\<lparr>include_detectors := [''H1'', ''L1''],
                               sampler := [''nestle'', ''dynesty''], coherence_test := True\<rparr>)
     ! (2 * 2 + 1) = ([''L1''], ''dynesty'')"
proof -
  let ?inp = "example_inputs\<lparr>include_detectors := [''H1'', ''L1''],
                               sampler := [''nestle'', ''dynesty''], coherence_test := True\<rparr>"
  have dl: "detectors_list ?inp = [[''H1'', ''L1''], [''H1''], [''L1'']]"
    by (simp add: detectors_list_eq)
  have "2 < length (detectors_list ?inp) \<and> 1 < length (sampler ?inp)"
    by (simp add: dl)
  with jobs_inputs_is_ordered_pairing[of ?inp]
  have "jobs_inputs ?inp ! (2 * length (sampler ?inp) + 1)
          = (detectors_list ?inp ! 2, sampler ?inp ! 1)"
    by blast
  then show ?thesis by (simp add: dl)
qed

text \<open>
  Claim C1, as amended. For a configuration with exactly one detector and
  \<^verbatim>\<open>coherence_test\<close> set, \<^verbatim>\<open>jobs_inputs\<close> does not suppress the singleton that repeats
  the full list: every sampler is paired with the one-detector list twice, so there
  are twice as many entries as samplers.
\<close>

theorem jobs_inputs_single_detector:
  assumes "include_detectors inp = [d]" and "coherence_test inp"
  shows "jobs_inputs inp
           = map (\<lambda>s. ([d], s)) (sampler inp) @ map (\<lambda>s. ([d], s)) (sampler inp)
         \<and> length (jobs_inputs inp) = 2 * length (sampler inp)"
  using assms by (simp add: jobs_inputs_product detectors_list_eq)

theorem jobs_inputs_single_detector_witness:
  "jobs_inputs (example_inputs\<lparr>coherence_test := True\<rparr>)
     = [([''H1''], ''nestle''), ([''H1''], ''nestle'')]
   \<and> length (jobs_inputs (example_inputs\<lparr>coherence_test := True\<rparr>)) = 2"
proof -
  have a: "include_detectors (example_inputs\<lparr>coherence_test := True\<rparr>) = [''H1'']"
    by (simp add: example_inputs_def)
  have b: "coherence_test (example_inputs\<lparr>coherence_test := True\<rparr>)"
    by simp
  show ?thesis
    using jobs_inputs_single_detector[OF a b] by (simp add: example_inputs_def)
qed

text \<open>
  The claim as written asks for one entry; with the detector H1 and the sampler nestle
  there are two, and they are equal.
\<close>

theorem jobs_inputs_single_detector_counterexample:
  "include_detectors (example_inputs\<lparr>coherence_test := True\<rparr>) = [''H1'']
   \<and> coherence_test (example_inputs\<lparr>coherence_test := True\<rparr>)
   \<and> jobs_inputs (example_inputs\<lparr>coherence_test := True\<rparr>)
       = [([''H1''], ''nestle''), ([''H1''], ''nestle'')]
   \<and> length (jobs_inputs (example_inputs\<lparr>coherence_test := True\<rparr>)) \<noteq> 1"
  by (simp add: jobs_inputs_product detectors_list_eq example_inputs_def)

section \<open>The detector list\<close>




section \<open>The credential\<close>

text \<open>
  Claim C10. If an explicit X509 path is given and it does not name an existing file,
  the setter of \<^verbatim>\<open>x509userproxy\<close> raises the \<^verbatim>\<open>ValueError\<close> "Input X509 not a file
  or not understood", and so does the construction of the \<^verbatim>\<open>Input\<close> object whenever
  the attributes assigned before it (the detectors and the executable) are accepted.
\<close>

theorem explicit_bad_X509_is_fatal:
  assumes "arg_X509 a = Some p" and "\<not> isfile w p"
    and "include_detectors_setter (arg_include_detectors a) = Inr dets"
    and "executable_setter (fst (outdir_setter w (arg_outdir a))) (arg_executable a) = Inr exe"
  shows "x509userproxy_setter w self (Some p)
           = Inl (ValueError ''Input X509 not a file or not understood'')
         \<and> Input_init w a unknown
           = Inl (ValueError ''Input X509 not a file or not understood'')"
  using assms
  by (simp add: Input_init_def outdir_setter_def x509_setter_bad_path)

theorem explicit_bad_X509_is_fatal_witness:
  "Input_init example_world (example_args\<lparr>arg_X509 := Some ''/repo/tests/missing.txt''\<rparr>)
      example_unknown_args
     = Inl (ValueError ''Input X509 not a file or not understood'')"
proof -
  let ?a = "example_args\<lparr>arg_X509 := Some ''/repo/tests/missing.txt''\<rparr>"
  have a: "arg_X509 ?a = Some ''/repo/tests/missing.txt''" by simp
  have b: "\<not> isfile example_world ''/repo/tests/missing.txt''" by code_simp
  have c: "include_detectors_setter (arg_include_detectors ?a) = Inr [''H1'']" by code_simp
  have d: "executable_setter (fst (outdir_setter example_world (arg_outdir ?a))) (arg_executable ?a)
             = Inr ''/repo/lib_scripts/generate_interferometer_list.py''" by code_simp
  from explicit_bad_X509_is_fatal[OF a b c d] show ?thesis by simp
qed




section \<open>Compiling a job\<close>

text \<open>
  Claim C9. For every detector list, sampler and list of passthrough arguments,
  \<^verbatim>\<open>_create_job\<close> (when the credential can be read) adds a job whose argument string
  is the reference to the configuration file, then one \<^verbatim>\<open>--detectors\<close> pair per
  detector in order, then the \<^verbatim>\<open>--sampler\<close> pair, then the placeholders
  \<^verbatim>\<open>--cluster $(Cluster)\<close> and \<^verbatim>\<open>--process $(Process)\<close>, and then the passthrough
  arguments, unchanged and in their order, separated by spaces.
\<close>

theorem create_job_arguments:
  assumes "x509userproxy_attr (inputs self) = Some v"
  shows "\<exists>self' job. create_job self detectors smp = Inr (self', job)
         \<and> job < length (nodes (dag self'))
         \<and> job_arguments (nodes (dag self') ! job)
             = ''--ini '' @ ini (inputs self)
               @ concat (map (\<lambda>detector. '' --detectors '' @ detector) detectors)
               @ '' --sampler '' @ smp
               @ '' --cluster $(Cluster)'' @ '' --process $(Process)''
               @ '' '' @ join '' '' (unknown_args (inputs self))"
proof -
  from create_job_ok[OF assms, of detectors smp]
  obtain j rp where cj: "create_job self detectors smp
           = Inr (self\<lparr>dag := (dag self)\<lparr>nodes := nodes (dag self) @ [j]\<rparr>, results_pages := rp\<rparr>,
                  length (nodes (dag self)))"
    and j: "job_arguments j = arguments_of (inputs self) detectors smp"
    by blast
  show ?thesis
    unfolding cj using j by (simp add: arguments_of_eq)
qed

theorem create_job_arguments_witness:
  "job_arguments (last (nodes (dag (fst (projr (create_job example_dag [''H1'', ''L1''] ''nestle''))))))
   = ''--ini file.ini --detectors H1 --detectors L1 --sampler nestle --cluster $(Cluster) --process $(Process) --argument value''"
proof -
  have a: "x509userproxy_attr (inputs example_dag) = Some (Some ''/repo/tests/X509.txt'')"
    by (simp add: example_dag_def example_inputs_def)
  from create_job_arguments[OF a, of "[''H1'', ''L1'']" "''nestle''"]
  obtain self' job where cj: "create_job example_dag [''H1'', ''L1''] ''nestle'' = Inr (self', job)"
    and lt: "job < length (nodes (dag self'))"
    and args: "job_arguments (nodes (dag self') ! job)
             = ''--ini '' @ ini (inputs example_dag)
               @ concat (map (\<lambda>detector. '' --detectors '' @ detector) [''H1'', ''L1''])
               @ '' --sampler '' @ ''nestle''
               @ '' --cluster $(Cluster)'' @ '' --process $(Process)''
               @ '' '' @ join '' '' (unknown_args (inputs example_dag))"
    by blast
  from create_job_ok[OF a, of "[''H1'', ''L1'']" "''nestle''"] cj
  have "nodes (dag self') ! job = last (nodes (dag self'))"
    by auto
  with args cj show ?thesis by (simp add: example_dag_def example_inputs_def)
qed

text \<open>
  Claim C8. The claim says that the memory, disk and cpus requests given to \<^verbatim>\<open>Dag\<close>
  reach every leaf job unchanged. With the requests 4GB of memory, 1GB of disk and 4
  cpus, the leaf job gets the memory and disk requests, but its cpus request is the
  disk request.
\<close>

theorem request_cpus_takes_request_disk:
  "map job_request_memory (leaf_jobs (projr (Dag_init example_inputs
       (Dag_defaults\<lparr>kw_request_memory := PyStr ''4GB'', kw_request_disk := PyStr ''1GB'',
                       kw_request_cpus := PyInt 4\<rparr>)))) = [PyStr ''4GB'']
   \<and> map job_request_disk (leaf_jobs (projr (Dag_init example_inputs
       (Dag_defaults\<lparr>kw_request_memory := PyStr ''4GB'', kw_request_disk := PyStr ''1GB'',
                       kw_request_cpus := PyInt 4\<rparr>)))) = [PyStr ''1GB'']
   \<and> map job_request_cpus (leaf_jobs (projr (Dag_init example_inputs
       (Dag_defaults\<lparr>kw_request_memory := PyStr ''4GB'', kw_request_disk := PyStr ''1GB'',
                       kw_request_cpus := PyInt 4\<rparr>)))) = [PyStr ''1GB'']"
  by code_simp

text \<open>
  Claim C3, as amended. For every configuration whose credential can be read, whose
  detectors are distinct known detectors and whose samplers are distinct, and which
  does not combine \<^verbatim>\<open>coherence_test\<close> with exactly one detector, the \<^verbatim>\<open>Dag\<close> is
  built with one leaf job per job input, named by the label, the concatenated detectors
  and the sampler, and the names of the leaf jobs are pairwise distinct.
\<close>

theorem leaf_job_names_distinct:
  assumes "x509userproxy_attr inp = Some v"
    and "distinct (include_detectors inp)"
    and "set (include_detectors inp) \<subseteq> set known_detectors"
    and "distinct (sampler inp)"
    and "\<not> (coherence_test inp \<and> length (include_detectors inp) = 1)"
  shows "\<exists>self. Dag_init inp kw = Inr self
           \<and> length (leaf_jobs self) = length (jobs_inputs inp)
           \<and> map job_name (leaf_jobs self)
               = map (\<lambda>ji. label inp @ ''_'' @ concat (fst ji) @ ''_'' @ snd ji) (jobs_inputs inp)
           \<and> distinct (map job_name (leaf_jobs self))"
proof -
  from Dag_init_ok[OF assms(1), of kw]
  obtain self js where r: "Dag_init inp kw = Inr self" "leaf_jobs self = js"
    "length js = length (jobs_inputs inp)"
    "map job_name js = map (\<lambda>ji. run_label_of inp (fst ji) (snd ji)) (jobs_inputs inp)"
    by blast
  from run_labels_distinct[OF assms(2-5)] r(4)
  have "distinct (map job_name js)" by simp
  with r show ?thesis by (simp add: run_label_of_def)
qed

theorem leaf_job_names_distinct_witness:
  "\<not> isl (Dag_init (example_inputs\<lparr>include_detectors := [''H1'', ''L1''],
                                     sampler := [''nestle'', ''dynesty''],
                                     coherence_test := True\<rparr>) Dag_defaults)
   \<and> distinct (map job_name (leaf_jobs (projr (Dag_init
        (example_inputs\<lparr>include_detectors := [''H1'', ''L1''],
                         sampler := [''nestle'', ''dynesty''],
                         coherence_test := True\<rparr>) Dag_defaults))))
   \<and> length (leaf_jobs (projr (Dag_init
        (example_inputs\<lparr>include_detectors := [''H1'', ''L1''],
                         sampler := [''nestle'', ''dynesty''],
                         coherence_test := True\<rparr>) Dag_defaults))) = 6"
proof -
  let ?inp = "example_inputs\<lparr>include_detectors := [''H1'', ''L1''],
                         sampler := [''nestle'', ''dynesty''], coherence_test := True\<rparr>"
  have a: "x509userproxy_attr ?inp = Some (Some ''/repo/tests/X509.txt'')"
    by (simp add: example_inputs_def)
  have b: "distinct (include_detectors ?inp)" by simp
  have c: "set (include_detectors ?inp) \<subseteq> set known_detectors"
    by (simp add: known_detectors_def)
  have d: "distinct (sampler ?inp)" by simp
  have e: "\<not> (coherence_test ?inp \<and> length (include_detectors ?inp) = 1)" by simp
  have n: "length (jobs_inputs ?inp) = 6"
    by (simp add: jobs_inputs_product detectors_list_eq)
  from leaf_job_names_distinct[OF a b c d e, of Dag_defaults] n
  show ?thesis by auto
qed

text \<open>
  The claim as written covers every configuration. With one detector and the coherence
  test, and also with a sampler that is listed twice, two leaf jobs have the same name.
\<close>

theorem leaf_job_names_counterexample:
  "\<not> isl (Dag_init (example_inputs\<lparr>coherence_test := True\<rparr>) Dag_defaults)
   \<and> map job_name (leaf_jobs (projr (Dag_init (example_inputs\<lparr>coherence_test := True\<rparr>)
                                        Dag_defaults)))
       = [''label_H1_nestle'', ''label_H1_nestle'']
   \<and> \<not> distinct (map job_name (leaf_jobs (projr (Dag_init
                     (example_inputs\<lparr>coherence_test := True\<rparr>) Dag_defaults))))
   \<and> map job_name (leaf_jobs (projr (Dag_init
        (example_inputs\<lparr>sampler := [''nestle'', ''nestle'']\<rparr>) Dag_defaults)))
       = [''label_H1_nestle'', ''label_H1_nestle'']"
  by code_simp

section \<open>The aggregation job\<close>

text \<open>
  Claim C6. \<^verbatim>\<open>create_postprocessing_jobs\<close> adds exactly one job to the dag, named
  after the label, and the set of its parents is the set of the jobs in
  \<^verbatim>\<open>self.jobs\<close>, whatever their number. For a \<^verbatim>\<open>Dag\<close> built by \<^verbatim>\<open>Dag.__init__\<close> (with
  a credential that can be read) the nodes of the dag are the leaf jobs, one per job
  input, followed by the aggregation job, whose parents are all the leaf jobs.
\<close>

theorem aggregation_job_has_all_leaves_as_parents:
  "(\<exists>post. create_postprocessing_jobs self
             = self\<lparr>dag := (dag self)\<lparr>nodes := nodes (dag self) @ [post]\<rparr>\<rparr>
         \<and> job_name post = label (inputs self) @ ''_combine_results''
         \<and> set (job_parents post) = set (jobs self))
   \<and> (x509userproxy_attr inp = Some v \<longrightarrow>
        (\<exists>self' js post. Dag_init inp kw = Inr self'
           \<and> nodes (dag self') = js @ [post]
           \<and> leaf_jobs self' = js
           \<and> length js = length (jobs_inputs inp)
           \<and> jobs self' = [0..<length js]
           \<and> job_name post = label inp @ ''_combine_results''
           \<and> job_parents post = jobs self'))"
proof (intro conjI impI)
  from create_postprocessing_jobs_eq[of self]
  obtain post where "create_postprocessing_jobs self
             = self\<lparr>dag := (dag self)\<lparr>nodes := nodes (dag self) @ [post]\<rparr>\<rparr>"
     "job_name post = label (inputs self) @ ''_combine_results''"
     "job_parents post = foldl (\<lambda>ps j. if j \<in> set ps then ps else ps @ [j]) [] (jobs self)"
    by blast
  then show "\<exists>post. create_postprocessing_jobs self
             = self\<lparr>dag := (dag self)\<lparr>nodes := nodes (dag self) @ [post]\<rparr>\<rparr>
         \<and> job_name post = label (inputs self) @ ''_combine_results''
         \<and> set (job_parents post) = set (jobs self)"
    by (intro exI[of _ post]) (simp add: insert_fold_set)
next
  assume "x509userproxy_attr inp = Some v"
  from Dag_init_ok[OF this, of kw]
  show "\<exists>self' js post. Dag_init inp kw = Inr self'
           \<and> nodes (dag self') = js @ [post]
           \<and> leaf_jobs self' = js
           \<and> length js = length (jobs_inputs inp)
           \<and> jobs self' = [0..<length js]
           \<and> job_name post = label inp @ ''_combine_results''
           \<and> job_parents post = jobs self'"
    by metis
qed

theorem aggregation_job_has_all_leaves_as_parents_witness:
  "\<not> isl (Dag_init (example_inputs\<lparr>include_detectors := [''H1'', ''L1''], coherence_test := True\<rparr>)
             Dag_defaults)
   \<and> job_parents (last (nodes (dag (projr (Dag_init
         (example_inputs\<lparr>include_detectors := [''H1'', ''L1''], coherence_test := True\<rparr>)
         Dag_defaults)))))
     = [0, 1, 2]"
proof -
  let ?inp = "example_inputs\<lparr>include_detectors := [''H1'', ''L1''], coherence_test := True\<rparr>"
  have a: "x509userproxy_attr ?inp = Some (Some ''/repo/tests/X509.txt'')"
    by (simp add: example_inputs_def)
  have n: "length (jobs_inputs ?inp) = 3"
    by (simp add: jobs_inputs_product detectors_list_eq example_inputs_def)
  from aggregation_job_has_all_leaves_as_parents[of _ ?inp _ Dag_defaults] a
  obtain self' js post where r: "Dag_init ?inp Dag_defaults = Inr self'"
     "nodes (dag self') = js @ [post]" "length js = length (jobs_inputs ?inp)"
     "jobs self' = [0..<length js]" "job_parents post = jobs self'"
    by blast
  have "[0..<3] = [0, 1, 2::nat]" by (simp add: upt_rec)
  with r n show ?thesis by simp
qed

text \<open>
  Claim C7, as amended. If no leaf job reaches \<^verbatim>\<open>create_postprocessing_jobs\<close> (the
  list of samplers is empty), the construction of the \<^verbatim>\<open>Dag\<close> does not fail: the dag
  holds one aggregation job, which has no parents.
\<close>

theorem no_leaf_jobs_gives_aggregation_job_without_parents:
  assumes "sampler inp = []"
  shows "\<exists>self post. Dag_init inp kw = Inr self
           \<and> jobs self = []
           \<and> nodes (dag self) = [post]
           \<and> job_name post = label inp @ ''_combine_results''
           \<and> job_parents post = []"
proof -
  define s0 where "s0 = \<lparr>request_memory = kw_request_memory kw,
                  request_disk = kw_request_disk kw,
                  request_cpus = kw_request_disk kw,
                  getenv = kw_getenv kw, universe = kw_universe kw,
                  initialdir = kw_initialdir kw, notification = kw_notification kw,
                  requirements = kw_requirements kw, retry = kw_retry kw,
                  verbose = kw_verbose kw, inputs = inp,
                  dag = \<lparr>dagman_name = ''main_'' @ label inp,
                         dagman_submit = submit_directory inp, nodes = [], built = None\<rparr>,
                  jobs = [], results_pages = []\<rparr>"
  have s0: "inputs s0 = inp" "nodes (dag s0) = []" "jobs s0 = []"
    by (simp_all add: s0_def)
  have di: "Dag_init inp kw =
              (case create_jobs s0 of Inl e \<Rightarrow> Inl e
               | Inr self' \<Rightarrow> Inr (build_submit (create_postprocessing_jobs self')))"
    unfolding Dag_init_def Let_def s0_def[symmetric] ..
  have "List.product dl ([]::string list) = []" for dl :: "string list list"
    by (induction dl) simp_all
  then have "jobs_inputs inp = []"
    using assms by (simp add: jobs_inputs_product)
  then have cj: "create_jobs s0 = Inr s0"
    by (simp add: create_jobs_def s0)
  from create_postprocessing_jobs_eq[of s0]
  obtain post where post: "create_postprocessing_jobs s0
             = s0\<lparr>dag := (dag s0)\<lparr>nodes := nodes (dag s0) @ [post]\<rparr>\<rparr>"
     "job_name post = label (inputs s0) @ ''_combine_results''"
     "job_parents post = foldl (\<lambda>ps j. if j \<in> set ps then ps else ps @ [j]) [] (jobs s0)"
    by blast
  show ?thesis
    using post by (simp add: di cj s0)
qed

theorem no_leaf_jobs_gives_aggregation_job_without_parents_witness:
  "\<not> isl (Dag_init (example_inputs\<lparr>sampler := []\<rparr>) Dag_defaults)
   \<and> map job_parents (nodes (dag (projr (Dag_init (example_inputs\<lparr>sampler := []\<rparr>) Dag_defaults))))
       = [[]]"
proof -
  have a: "sampler (example_inputs\<lparr>sampler := []\<rparr>) = []" by simp
  from no_leaf_jobs_gives_aggregation_job_without_parents[OF a, of Dag_defaults]
  show ?thesis by auto
qed

text \<open>
  The claim as written asks for a fatal error; with an empty list of samplers the
  \<^verbatim>\<open>Dag\<close> is built and its only node is the aggregation job without parents.
\<close>

theorem empty_leaf_list_counterexample:
  "\<not> isl (Dag_init (example_inputs\<lparr>sampler := []\<rparr>) Dag_defaults)
   \<and> leaf_jobs (projr (Dag_init (example_inputs\<lparr>sampler := []\<rparr>) Dag_defaults)) = []
   \<and> map job_name (nodes (dag (projr (Dag_init (example_inputs\<lparr>sampler := []\<rparr>) Dag_defaults))))
       = [''label_combine_results'']
   \<and> map job_parents (nodes (dag (projr (Dag_init (example_inputs\<lparr>sampler := []\<rparr>) Dag_defaults))))
       = [[]]"
  by code_simp

end
